theory Spec2Isabelle
  imports Main "HOL-Library.Word"
begin

section \<open>Values, errors and the objects of the external libraries\<close>

text \<open>
  The entries of \<^verbatim>\<open>model_args\<close> (a \<^verbatim>\<open>Dict[str, Any]\<close>) are Python values. Only the
  dynamic type of a value is ever inspected by the module (\<^verbatim>\<open>isinstance(v, float)\<close>,
  \<^verbatim>\<open>v is not None\<close>); a float is carried as its 64-bit pattern, which is never read.
\<close>

datatype pyval =
    PNone
  | PBool bool
  | PInt int
  | PFloat "64 word"
  | PStr string

fun is_float :: "pyval \<Rightarrow> bool" where
  "is_float (PFloat _) = True"
| "is_float _ = False"

text \<open>An exception raised inside an external library, which the module never catches.\<close>

type_synonym exn = string

text \<open>
  \<open>KeyError\<close> is raised by subscripting \<^verbatim>\<open>model_args\<close> at a missing key, \<open>ValueError\<close>
  by the two checks of \<^verbatim>\<open>configure_optimizers\<close>, \<open>AttributeError\<close> by reading an
  attribute of the module that was never assigned; \<open>Propagated\<close> is any exception that
  comes out of a library call.
\<close>

datatype error =
    KeyError string
  | ValueError string
  | AttributeError string
  | Propagated exn

text \<open>The model classes of the transformers library that the module classes name.\<close>

datatype auto_class =
    AutoModel
  | AutoModelForMaskedLM
  | AutoModelForSeq2SeqLM
  | AutoModelForCausalLM
  | XLNetLMHeadModel

text \<open>
  The object a network returns when called: reading \<^verbatim>\<open>.logits\<close> or \<^verbatim>\<open>.loss\<close> yields a
  tensor or raises.
\<close>

record 'ten model_output =
  logits :: "exn + 'ten"
  loss :: "exn + 'ten"

text \<open>
  The libraries (transformers, torch, pytorch_lightning) are not part of the repository:
  they are a parameter of every definition below. Networks \<open>'net\<close>, architecture
  configurations \<open>'cfg\<close>, tokenizers \<open>'tok\<close>, tensors \<open>'ten\<close>, optimizers \<open>'opt\<close> and
  schedulers \<open>'sch\<close> are opaque. A call that mutates a network in place returns the
  network after the call. \<open>embedding_rows\<close> and \<open>special_token\<close> are observations used
  in statements only; the module never calls them.
\<close>

record ('net, 'cfg, 'tok, 'ten, 'opt, 'sch) library =
  from_pretrained :: "auto_class \<Rightarrow> pyval \<Rightarrow> pyval \<Rightarrow> exn + 'net"
  config_from_pretrained :: "pyval \<Rightarrow> pyval \<Rightarrow> exn + 'cfg"
  from_config :: "auto_class \<Rightarrow> 'cfg \<Rightarrow> exn + 'net"
  tokenizer_from_pretrained :: "pyval \<Rightarrow> (string \<times> pyval) list \<Rightarrow> exn + 'tok"
  tokenizer_len :: "'tok \<Rightarrow> nat"
  special_token :: "'tok \<Rightarrow> string \<Rightarrow> string option"
  resize_token_embeddings :: "'net \<Rightarrow> nat \<Rightarrow> exn + 'net"
  embedding_rows :: "'net \<Rightarrow> nat"
  call_network :: "'net \<Rightarrow> 'ten list \<Rightarrow> (string \<rightharpoonup> 'ten) \<Rightarrow> exn + ('ten model_output \<times> 'net)"
  log_metric :: "string \<Rightarrow> 'ten \<Rightarrow> exn + unit"
  AdamW :: "'net option \<Rightarrow> pyval \<Rightarrow> pyval \<Rightarrow> exn + 'opt"
  StepLR :: "'opt \<Rightarrow> int \<Rightarrow> pyval \<Rightarrow> exn + 'sch"

text \<open>
  Every call into a library and every logged message is recorded, in program order, with
  the arguments it was given.
\<close>

datatype ('net, 'cfg, 'ten, 'opt) event =
    Ev_from_pretrained auto_class pyval pyval
  | Ev_config_from_pretrained pyval pyval
  | Ev_from_config auto_class 'cfg
  | Ev_logger_info string
  | Ev_tokenizer_from_pretrained pyval "(string \<times> pyval) list"
  | Ev_resize_token_embeddings 'net nat
  | Ev_call_network 'net "'ten list" "string \<rightharpoonup> 'ten"
  | Ev_log string 'ten
  | Ev_AdamW "'net option" pyval pyval
  | Ev_StepLR 'opt int pyval

section \<open>The module object\<close>

text \<open>
  The attributes of a module instance. \<^verbatim>\<open>model\<close> and \<^verbatim>\<open>tokenizer\<close> are only annotated
  by the constructors, so they are absent until \<^verbatim>\<open>init_model\<close> assigns them.
\<close>

record ('net, 'tok) lightning_module =
  model_args :: "string \<rightharpoonup> pyval"
  cache_dir :: pyval
  model :: "'net option"
  tokenizer :: "'tok option"

text \<open>
  A method takes the module and returns the module after the call, the events it caused
  and either the exception that ended it or its return value.
\<close>

type_synonym ('net, 'cfg, 'tok, 'ten, 'opt, 'a) pymethod =
  "('net, 'tok) lightning_module \<Rightarrow>
   ('net, 'tok) lightning_module \<times> ('net, 'cfg, 'ten, 'opt) event list \<times> (error + 'a)"

definition seq ::
  "('net, 'cfg, 'tok, 'ten, 'opt, 'a) pymethod \<Rightarrow>
   ('a \<Rightarrow> ('net, 'cfg, 'tok, 'ten, 'opt, 'b) pymethod) \<Rightarrow>
   ('net, 'cfg, 'tok, 'ten, 'opt, 'b) pymethod" where
  "seq m f s =
     (case m s of
        (s1, t1, Inl e) \<Rightarrow> (s1, t1, Inl e)
      | (s1, t1, Inr a) \<Rightarrow> (case f a s1 of (s2, t2, r) \<Rightarrow> (s2, t1 @ t2, r)))"

definition return :: "'a \<Rightarrow> ('net, 'cfg, 'tok, 'ten, 'opt, 'a) pymethod" where
  "return a s = (s, [], Inr a)"

definition raise :: "error \<Rightarrow> ('net, 'cfg, 'tok, 'ten, 'opt, 'a) pymethod" where
  "raise e s = (s, [], Inl e)"

text \<open>\<^verbatim>\<open>self.model_args[k]\<close>\<close>

definition subscript :: "string \<Rightarrow> ('net, 'cfg, 'tok, 'ten, 'opt, pyval) pymethod" where
  "subscript k s =
     (case model_args s k of
        None \<Rightarrow> (s, [], Inl (KeyError k))
      | Some v \<Rightarrow> (s, [], Inr v))"

text \<open>A library call: the event is recorded whether the call returns or raises.\<close>

definition extern ::
  "('net, 'cfg, 'ten, 'opt) event \<Rightarrow> exn + 'a \<Rightarrow> ('net, 'cfg, 'tok, 'ten, 'opt, 'a) pymethod" where
  "extern ev r s =
     (case r of
        Inl x \<Rightarrow> (s, [ev], Inl (Propagated x))
      | Inr a \<Rightarrow> (s, [ev], Inr a))"

text \<open>Reading an attribute of a library object, which records nothing.\<close>

definition attribute :: "exn + 'a \<Rightarrow> ('net, 'cfg, 'tok, 'ten, 'opt, 'a) pymethod" where
  "attribute r s =
     (case r of
        Inl x \<Rightarrow> (s, [], Inl (Propagated x))
      | Inr a \<Rightarrow> (s, [], Inr a))"

definition logger_info :: "string \<Rightarrow> ('net, 'cfg, 'tok, 'ten, 'opt, unit) pymethod" where
  "logger_info msg s = (s, [Ev_logger_info msg], Inr ())"

definition get_cache_dir :: "('net, 'cfg, 'tok, 'ten, 'opt, pyval) pymethod" where
  "get_cache_dir s = (s, [], Inr (cache_dir s))"

definition get_model :: "('net, 'cfg, 'tok, 'ten, 'opt, 'net) pymethod" where
  "get_model s =
     (case model s of
        None \<Rightarrow> (s, [], Inl (AttributeError ''model''))
      | Some net \<Rightarrow> (s, [], Inr net))"

definition set_model :: "'net \<Rightarrow> ('net, 'cfg, 'tok, 'ten, 'opt, unit) pymethod" where
  "set_model net s = (s\<lparr>model := Some net\<rparr>, [], Inr ())"

definition get_tokenizer :: "('net, 'cfg, 'tok, 'ten, 'opt, 'tok) pymethod" where
  "get_tokenizer s =
     (case tokenizer s of
        None \<Rightarrow> (s, [], Inl (AttributeError ''tokenizer''))
      | Some tok \<Rightarrow> (s, [], Inr tok))"

definition set_tokenizer :: "'tok \<Rightarrow> ('net, 'cfg, 'tok, 'ten, 'opt, unit) pymethod" where
  "set_tokenizer tok s = (s\<lparr>tokenizer := Some tok\<rparr>, [], Inr ())"


section \<open>The base module\<close>

text \<open>
  \<^verbatim>\<open>BaseLightningModule.__init__\<close> stores \<^verbatim>\<open>model_args\<close> and assigns nothing else.
  \<^verbatim>\<open>cache_dir\<close> is an attribute of the subclasses only; it is \<open>PNone\<close> here and is
  not read by any method of the base class.
\<close>

definition BaseLightningModule_init :: "(string \<rightharpoonup> pyval) \<Rightarrow> ('net, 'tok) lightning_module" where
  "BaseLightningModule_init margs =
     \<lparr>model_args = margs, cache_dir = PNone, model = None, tokenizer = None\<rparr>"

text \<open>\<^verbatim>\<open>forward\<close>: \<^verbatim>\<open>return self.model(x).logits\<close>\<close>

definition forward ::
  "('net, 'cfg, 'tok, 'ten, 'opt, 'sch) library \<Rightarrow> 'ten \<Rightarrow> ('net, 'cfg, 'tok, 'ten, 'opt, 'ten) pymethod" where
  "forward lib x =
     seq get_model (\<lambda>net.
     seq (extern (Ev_call_network net [x] Map.empty) (call_network lib net [x] Map.empty)) (\<lambda>(out, net').
     seq (set_model net') (\<lambda>_.
     attribute (logits out))))"

text \<open>
  The dictionary \<^verbatim>\<open>configure_optimizers\<close> returns: its values are an optimizer, a
  scheduler and a string.
\<close>

datatype ('opt, 'sch) optim_entry =
    Optimizer 'opt
  | Scheduler 'sch
  | Metric string

text \<open>
  \<^verbatim>\<open>self.parameters()\<close> are the parameters of the network the module holds (none when it
  holds no network): the optimizer constructor is given that network.
\<close>

definition parameters :: "('net, 'cfg, 'tok, 'ten, 'opt, 'net option) pymethod" where
  "parameters s = (s, [], Inr (model s))"

text \<open>\<^verbatim>\<open>configure_optimizers\<close>\<close>

definition configure_optimizers ::
  "('net, 'cfg, 'tok, 'ten, 'opt, 'sch) library \<Rightarrow>
   ('net, 'cfg, 'tok, 'ten, 'opt, string \<rightharpoonup> ('opt, 'sch) optim_entry) pymethod" where
  "configure_optimizers lib =
     seq (subscript ''lr'') (\<lambda>lr.
     if \<not> is_float lr then raise (ValueError ''Learning rate should be float'')
     else
     seq (subscript ''lr_decay'') (\<lambda>lr_decay.
     if \<not> is_float lr_decay then raise (ValueError ''Learning rate decay rate should be float'')
     else
     seq parameters (\<lambda>params.
     seq (subscript ''lr'') (\<lambda>lr.
     seq (subscript ''weight_decay'') (\<lambda>weight_decay.
     seq (extern (Ev_AdamW params lr weight_decay) (AdamW lib params lr weight_decay)) (\<lambda>optimizer.
     seq (subscript ''lr_decay'') (\<lambda>lr_decay.
     seq (extern (Ev_StepLR optimizer 1 lr_decay) (StepLR lib optimizer 1 lr_decay)) (\<lambda>scheduler.
     return
       [''optimizer'' \<mapsto> Optimizer optimizer,
        ''lr_scheduler'' \<mapsto> Scheduler scheduler,
        ''monitor'' \<mapsto> Metric ''val_loss'']))))))))"

text \<open>\<^verbatim>\<open>training_step\<close>; \<^verbatim>\<open>batch_idx\<close> is unused.\<close>

definition training_step ::
  "('net, 'cfg, 'tok, 'ten, 'opt, 'sch) library \<Rightarrow> (string \<rightharpoonup> 'ten) \<Rightarrow> int \<Rightarrow>
   ('net, 'cfg, 'tok, 'ten, 'opt, 'ten) pymethod" where
  "training_step lib batch batch_idx =
     seq get_model (\<lambda>net.
     seq (extern (Ev_call_network net [] batch) (call_network lib net [] batch)) (\<lambda>(out, net').
     seq (set_model net') (\<lambda>_.
     seq (attribute (loss out)) (\<lambda>l.
     seq (extern (Ev_log ''train_loss'' l) (log_metric lib ''train_loss'' l)) (\<lambda>_.
     return l)))))"

text \<open>\<^verbatim>\<open>validation_step\<close>; \<^verbatim>\<open>batch_idx\<close> is unused.\<close>

definition validation_step ::
  "('net, 'cfg, 'tok, 'ten, 'opt, 'sch) library \<Rightarrow> (string \<rightharpoonup> 'ten) \<Rightarrow> int \<Rightarrow>
   ('net, 'cfg, 'tok, 'ten, 'opt, 'ten) pymethod" where
  "validation_step lib batch batch_idx =
     seq get_model (\<lambda>net.
     seq (extern (Ev_call_network net [] batch) (call_network lib net [] batch)) (\<lambda>(out, net').
     seq (set_model net') (\<lambda>_.
     seq (attribute (loss out)) (\<lambda>l.
     seq (extern (Ev_log ''val_loss'' l) (log_metric lib ''val_loss'' l)) (\<lambda>_.
     return l)))))"

section \<open>The five module classes\<close>

text \<open>\<^verbatim>\<open>LMModule.init_model\<close>: the network only.\<close>

definition LMModule_init_model ::
  "('net, 'cfg, 'tok, 'ten, 'opt, 'sch) library \<Rightarrow> ('net, 'cfg, 'tok, 'ten, 'opt, unit) pymethod" where
  "LMModule_init_model lib =
     seq (subscript ''model_name_or_path'') (\<lambda>name_or_path.
        if name_or_path \<noteq> PNone then
          seq (subscript ''model_name_or_path'') (\<lambda>name_or_path.
          seq get_cache_dir (\<lambda>cd.
          seq (extern (Ev_from_pretrained AutoModel name_or_path cd)
                 (from_pretrained lib AutoModel name_or_path cd))
            set_model))
        else
          seq (subscript ''model_config_name'') (\<lambda>config_name.
          seq get_cache_dir (\<lambda>cd.
          seq (extern (Ev_config_from_pretrained config_name cd)
                 (config_from_pretrained lib config_name cd)) (\<lambda>config.
          seq (extern (Ev_from_config AutoModel config) (from_config lib AutoModel config)) (\<lambda>net.
          seq (set_model net) (\<lambda>_.
          logger_info ''Training from scratch''))))))"

text \<open>\<^verbatim>\<open>MLMModule.init_model\<close>: network, tokenizer, resize.\<close>

definition MLMModule_init_model ::
  "('net, 'cfg, 'tok, 'ten, 'opt, 'sch) library \<Rightarrow> ('net, 'cfg, 'tok, 'ten, 'opt, unit) pymethod" where
  "MLMModule_init_model lib =
     seq
       (seq (subscript ''model_name_or_path'') (\<lambda>name_or_path.
        if name_or_path \<noteq> PNone then
          seq (subscript ''model_name_or_path'') (\<lambda>name_or_path.
          seq get_cache_dir (\<lambda>cd.
          seq (extern (Ev_from_pretrained AutoModelForMaskedLM name_or_path cd)
                 (from_pretrained lib AutoModelForMaskedLM name_or_path cd))
            set_model))
        else
          seq (subscript ''model_config_name'') (\<lambda>config_name.
          seq get_cache_dir (\<lambda>cd.
          seq (extern (Ev_config_from_pretrained config_name cd)
                 (config_from_pretrained lib config_name cd)) (\<lambda>config.
          seq (extern (Ev_from_config AutoModelForMaskedLM config) (from_config lib AutoModelForMaskedLM config)) (\<lambda>net.
          seq (set_model net) (\<lambda>_.
          logger_info ''Training from scratch''))))))) (\<lambda>_.
     seq (subscript ''tokenizer'') (\<lambda>tokenizer_name.
     seq (extern (Ev_tokenizer_from_pretrained tokenizer_name [(''use_fast'', PBool False)])
            (tokenizer_from_pretrained lib tokenizer_name [(''use_fast'', PBool False)])) (\<lambda>tok.
     seq (set_tokenizer tok) (\<lambda>_.
     seq get_model (\<lambda>net.
     seq get_tokenizer (\<lambda>tok.
     seq (extern (Ev_resize_token_embeddings net (tokenizer_len lib tok))
            (resize_token_embeddings lib net (tokenizer_len lib tok)))
       set_model))))))"

text \<open>\<^verbatim>\<open>CGMModule.init_model\<close>: network, tokenizer, resize.\<close>

definition CGMModule_init_model ::
  "('net, 'cfg, 'tok, 'ten, 'opt, 'sch) library \<Rightarrow> ('net, 'cfg, 'tok, 'ten, 'opt, unit) pymethod" where
  "CGMModule_init_model lib =
     seq
       (seq (subscript ''model_name_or_path'') (\<lambda>name_or_path.
        if name_or_path \<noteq> PNone then
          seq (subscript ''model_name_or_path'') (\<lambda>name_or_path.
          seq get_cache_dir (\<lambda>cd.
          seq (extern (Ev_from_pretrained AutoModelForSeq2SeqLM name_or_path cd)
                 (from_pretrained lib AutoModelForSeq2SeqLM name_or_path cd))
            set_model))
        else
          seq (subscript ''model_config_name'') (\<lambda>config_name.
          seq get_cache_dir (\<lambda>cd.
          seq (extern (Ev_config_from_pretrained config_name cd)
                 (config_from_pretrained lib config_name cd)) (\<lambda>config.
          seq (extern (Ev_from_config AutoModelForSeq2SeqLM config) (from_config lib AutoModelForSeq2SeqLM config)) (\<lambda>net.
          seq (set_model net) (\<lambda>_.
          logger_info ''Training from scratch''))))))) (\<lambda>_.
     seq (subscript ''tokenizer'') (\<lambda>tokenizer_name.
     seq (extern (Ev_tokenizer_from_pretrained tokenizer_name [(''use_fast'', PBool False)])
            (tokenizer_from_pretrained lib tokenizer_name [(''use_fast'', PBool False)])) (\<lambda>tok.
     seq (set_tokenizer tok) (\<lambda>_.
     seq get_model (\<lambda>net.
     seq get_tokenizer (\<lambda>tok.
     seq (extern (Ev_resize_token_embeddings net (tokenizer_len lib tok))
            (resize_token_embeddings lib net (tokenizer_len lib tok)))
       set_model))))))"

text \<open>\<^verbatim>\<open>CLMModule.init_model\<close>: as the others, with two special tokens given to the tokenizer loader.\<close>

definition CLMModule_init_model ::
  "('net, 'cfg, 'tok, 'ten, 'opt, 'sch) library \<Rightarrow> ('net, 'cfg, 'tok, 'ten, 'opt, unit) pymethod" where
  "CLMModule_init_model lib =
     seq
       (seq (subscript ''model_name_or_path'') (\<lambda>name_or_path.
        if name_or_path \<noteq> PNone then
          seq (subscript ''model_name_or_path'') (\<lambda>name_or_path.
          seq get_cache_dir (\<lambda>cd.
          seq (extern (Ev_from_pretrained AutoModelForCausalLM name_or_path cd)
                 (from_pretrained lib AutoModelForCausalLM name_or_path cd))
            set_model))
        else
          seq (subscript ''model_config_name'') (\<lambda>config_name.
          seq get_cache_dir (\<lambda>cd.
          seq (extern (Ev_config_from_pretrained config_name cd)
                 (config_from_pretrained lib config_name cd)) (\<lambda>config.
          seq (extern (Ev_from_config AutoModelForCausalLM config) (from_config lib AutoModelForCausalLM config)) (\<lambda>net.
          seq (set_model net) (\<lambda>_.
          logger_info ''Training from scratch''))))))) (\<lambda>_.
     seq (subscript ''tokenizer'') (\<lambda>tokenizer_name.
     seq (extern (Ev_tokenizer_from_pretrained tokenizer_name [(''sep_token'', PStr ''<|sep|>''), (''pad_token'', PStr ''<|pad|>''), (''use_fast'', PBool False)])
            (tokenizer_from_pretrained lib tokenizer_name [(''sep_token'', PStr ''<|sep|>''), (''pad_token'', PStr ''<|pad|>''), (''use_fast'', PBool False)])) (\<lambda>tok.
     seq (set_tokenizer tok) (\<lambda>_.
     seq get_model (\<lambda>net.
     seq get_tokenizer (\<lambda>tok.
     seq (extern (Ev_resize_token_embeddings net (tokenizer_len lib tok))
            (resize_token_embeddings lib net (tokenizer_len lib tok)))
       set_model))))))"

text \<open>\<^verbatim>\<open>PLMModule.init_model\<close>: network, tokenizer, resize.\<close>

definition PLMModule_init_model ::
  "('net, 'cfg, 'tok, 'ten, 'opt, 'sch) library \<Rightarrow> ('net, 'cfg, 'tok, 'ten, 'opt, unit) pymethod" where
  "PLMModule_init_model lib =
     seq
       (seq (subscript ''model_name_or_path'') (\<lambda>name_or_path.
        if name_or_path \<noteq> PNone then
          seq (subscript ''model_name_or_path'') (\<lambda>name_or_path.
          seq get_cache_dir (\<lambda>cd.
          seq (extern (Ev_from_pretrained XLNetLMHeadModel name_or_path cd)
                 (from_pretrained lib XLNetLMHeadModel name_or_path cd))
            set_model))
        else
          seq (subscript ''model_config_name'') (\<lambda>config_name.
          seq get_cache_dir (\<lambda>cd.
          seq (extern (Ev_config_from_pretrained config_name cd)
                 (config_from_pretrained lib config_name cd)) (\<lambda>config.
          seq (extern (Ev_from_config XLNetLMHeadModel config) (from_config lib XLNetLMHeadModel config)) (\<lambda>net.
          seq (set_model net) (\<lambda>_.
          logger_info ''Training from scratch''))))))) (\<lambda>_.
     seq (subscript ''tokenizer'') (\<lambda>tokenizer_name.
     seq (extern (Ev_tokenizer_from_pretrained tokenizer_name [(''use_fast'', PBool False)])
            (tokenizer_from_pretrained lib tokenizer_name [(''use_fast'', PBool False)])) (\<lambda>tok.
     seq (set_tokenizer tok) (\<lambda>_.
     seq get_model (\<lambda>net.
     seq get_tokenizer (\<lambda>tok.
     seq (extern (Ev_resize_token_embeddings net (tokenizer_len lib tok))
            (resize_token_embeddings lib net (tokenizer_len lib tok)))
       set_model))))))"

datatype module_class = LMModule | MLMModule | CLMModule | CGMModule | PLMModule

text \<open>\<^verbatim>\<open>self.init_model()\<close> runs the method of the instance's class.\<close>

fun init_model ::
  "('net, 'cfg, 'tok, 'ten, 'opt, 'sch) library \<Rightarrow> module_class \<Rightarrow>
   ('net, 'cfg, 'tok, 'ten, 'opt, unit) pymethod" where
  "init_model lib LMModule = LMModule_init_model lib"
| "init_model lib MLMModule = MLMModule_init_model lib"
| "init_model lib CLMModule = CLMModule_init_model lib"
| "init_model lib CGMModule = CGMModule_init_model lib"
| "init_model lib PLMModule = PLMModule_init_model lib"

text \<open>
  \<^verbatim>\<open>LMModule.__init__\<close>, inherited by the four subclasses: the base constructor, the
  cache directory when \<^verbatim>\<open>model_args\<close> has one, then \<^verbatim>\<open>init_model\<close>.
\<close>

definition LMModule_init ::
  "('net, 'cfg, 'tok, 'ten, 'opt, 'sch) library \<Rightarrow> module_class \<Rightarrow> (string \<rightharpoonup> pyval) \<Rightarrow>
   ('net, 'tok) lightning_module \<times> ('net, 'cfg, 'ten, 'opt) event list \<times> (error + unit)" where
  "LMModule_init lib cls margs =
     (let self = BaseLightningModule_init margs;
          self = self\<lparr>cache_dir := PNone\<rparr>;
          self = (case margs ''cache_dir'' of
                    None \<Rightarrow> self
                  | Some d \<Rightarrow> self\<lparr>cache_dir := d\<rparr>)
      in init_model lib cls self)"

definition LM_MODULE_FACTORY :: "string \<rightharpoonup> module_class" where
  "LM_MODULE_FACTORY =
     [''lm'' \<mapsto> LMModule, ''mlm'' \<mapsto> MLMModule, ''clm'' \<mapsto> CLMModule,
      ''cgm'' \<mapsto> CGMModule, ''plm'' \<mapsto> PLMModule]"

section \<open>Reading outcomes\<close>

text \<open>The three parts of what a method returns.\<close>

definition module_after ::
  "('net, 'tok) lightning_module \<times> ('net, 'cfg, 'ten, 'opt) event list \<times> (error + 'a) \<Rightarrow>
   ('net, 'tok) lightning_module" where
  "module_after out = fst out"

definition events ::
  "('net, 'tok) lightning_module \<times> ('net, 'cfg, 'ten, 'opt) event list \<times> (error + 'a) \<Rightarrow>
   ('net, 'cfg, 'ten, 'opt) event list" where
  "events out = fst (snd out)"

definition outcome ::
  "('net, 'tok) lightning_module \<times> ('net, 'cfg, 'ten, 'opt) event list \<times> (error + 'a) \<Rightarrow>
   error + 'a" where
  "outcome out = snd (snd out)"

definition emit ::
  "('net, 'cfg, 'ten, 'opt) event \<Rightarrow>
   ('net, 'tok) lightning_module \<times> ('net, 'cfg, 'ten, 'opt) event list \<times> (error + 'a) \<Rightarrow>
   ('net, 'tok) lightning_module \<times> ('net, 'cfg, 'ten, 'opt) event list \<times> (error + 'a)" where
  "emit ev out = (module_after out, ev # events out, outcome out)"

text \<open>The library class each module class names in its \<^verbatim>\<open>init_model\<close>.\<close>

fun network_class :: "module_class \<Rightarrow> auto_class" where
  "network_class LMModule = AutoModel"
| "network_class MLMModule = AutoModelForMaskedLM"
| "network_class CLMModule = AutoModelForCausalLM"
| "network_class CGMModule = AutoModelForSeq2SeqLM"
| "network_class PLMModule = XLNetLMHeadModel"

text \<open>The keyword arguments each module class gives to the tokenizer loader.\<close>

fun tokenizer_kwargs :: "module_class \<Rightarrow> (string \<times> pyval) list" where
  "tokenizer_kwargs CLMModule =
     [(''sep_token'', PStr ''<|sep|>''), (''pad_token'', PStr ''<|pad|>''), (''use_fast'', PBool False)]"
| "tokenizer_kwargs _ = [(''use_fast'', PBool False)]"

text \<open>The value \<^verbatim>\<open>LMModule.__init__\<close> gives to \<^verbatim>\<open>self.cache_dir\<close>.\<close>

definition configured_cache_dir :: "(string \<rightharpoonup> pyval) \<Rightarrow> pyval" where
  "configured_cache_dir margs = (case margs ''cache_dir'' of None \<Rightarrow> PNone | Some d \<Rightarrow> d)"

text \<open>The module as \<^verbatim>\<open>LMModule.__init__\<close> hands it to \<^verbatim>\<open>init_model\<close>.\<close>

definition initial_module :: "(string \<rightharpoonup> pyval) \<Rightarrow> ('net, 'tok) lightning_module" where
  "initial_module margs =
     \<lparr>model_args = margs, cache_dir = configured_cache_dir margs, model = None, tokenizer = None\<rparr>"



fun tokenizer_event :: "('net, 'cfg, 'ten, 'opt) event \<Rightarrow> bool" where
  "tokenizer_event (Ev_tokenizer_from_pretrained _ _) = True"
| "tokenizer_event _ = False"

text \<open>
  The five \<^verbatim>\<open>init_model\<close> methods share their text up to the library class and the
  tokenizer's keyword arguments. \<open>load_network\<close> is the first half with the class as a
  parameter, \<open>load_tokenizer\<close> the second half with the keyword arguments as a
  parameter; \<open>init_model_factored\<close> below shows that each method is their composition.
\<close>

definition load_network ::
  "('net, 'cfg, 'tok, 'ten, 'opt, 'sch) library \<Rightarrow> auto_class \<Rightarrow>
   ('net, 'cfg, 'tok, 'ten, 'opt, unit) pymethod" where
  "load_network lib ac =
     seq (subscript ''model_name_or_path'') (\<lambda>name_or_path.
        if name_or_path \<noteq> PNone then
          seq (subscript ''model_name_or_path'') (\<lambda>name_or_path.
          seq get_cache_dir (\<lambda>cd.
          seq (extern (Ev_from_pretrained ac name_or_path cd)
                 (from_pretrained lib ac name_or_path cd))
            set_model))
        else
          seq (subscript ''model_config_name'') (\<lambda>config_name.
          seq get_cache_dir (\<lambda>cd.
          seq (extern (Ev_config_from_pretrained config_name cd)
                 (config_from_pretrained lib config_name cd)) (\<lambda>config.
          seq (extern (Ev_from_config ac config) (from_config lib ac config)) (\<lambda>net.
          seq (set_model net) (\<lambda>_.
          logger_info ''Training from scratch''))))))"

definition load_tokenizer ::
  "('net, 'cfg, 'tok, 'ten, 'opt, 'sch) library \<Rightarrow> (string \<times> pyval) list \<Rightarrow>
   ('net, 'cfg, 'tok, 'ten, 'opt, unit) pymethod" where
  "load_tokenizer lib kwargs =
     seq (subscript ''tokenizer'') (\<lambda>tokenizer_name.
     seq (extern (Ev_tokenizer_from_pretrained tokenizer_name kwargs)
            (tokenizer_from_pretrained lib tokenizer_name kwargs)) (\<lambda>tok.
     seq (set_tokenizer tok) (\<lambda>_.
     seq get_model (\<lambda>net.
     seq get_tokenizer (\<lambda>tok.
     seq (extern (Ev_resize_token_embeddings net (tokenizer_len lib tok))
            (resize_token_embeddings lib net (tokenizer_len lib tok)))
       set_model)))))"

definition finish ::
  "('net, 'cfg, 'tok, 'ten, 'opt, 'sch) library \<Rightarrow> module_class \<Rightarrow>
   ('net, 'cfg, 'tok, 'ten, 'opt, unit) pymethod" where
  "finish lib cls =
     (if cls = LMModule then return () else load_tokenizer lib (tokenizer_kwargs cls))"

section \<open>A sample library\<close>

text \<open>
  A small library on which the definitions can be evaluated. A network is its number of
  embedding rows, a configuration its name, a tokenizer the special tokens it was loaded
  with (over a base vocabulary of 50257 entries that has no separator and no padding
  token), a tensor an integer. Only string identifiers resolve.
\<close>

definition sample_library ::
  "(nat, string, (string \<times> pyval) list, int, pyval \<times> pyval, int \<times> pyval) library" where
  "sample_library =
     \<lparr>from_pretrained = (\<lambda>ac name cd. case name of PStr n \<Rightarrow> Inr 50257 | _ \<Rightarrow> Inl ''OSError''),
      config_from_pretrained = (\<lambda>name cd. case name of PStr n \<Rightarrow> Inr n | _ \<Rightarrow> Inl ''OSError''),
      from_config = (\<lambda>ac cfg. Inr 50257),
      tokenizer_from_pretrained =
        (\<lambda>name kw. case name of
           PStr n \<Rightarrow> Inr (filter (\<lambda>(k, v). k \<noteq> ''use_fast'') kw)
         | _ \<Rightarrow> Inl ''OSError''),
      tokenizer_len = (\<lambda>tok. 50257 + length tok),
      special_token = (\<lambda>tok k. case map_of tok k of Some (PStr v) \<Rightarrow> Some v | _ \<Rightarrow> None),
      resize_token_embeddings = (\<lambda>net n. Inr n),
      embedding_rows = (\<lambda>net. net),
      call_network = (\<lambda>net args kwargs. Inr (\<lparr>logits = Inr 7, loss = Inr 3\<rparr>, net)),
      log_metric = (\<lambda>name l. Inr ()),
      AdamW = (\<lambda>params lr wd. Inr (lr, wd)),
      StepLR = (\<lambda>opt step gamma. Inr (step, gamma))\<rparr>"

text \<open>
  Sample configurations (0.001, 0.5 and 0.01 as floats), and the module that constructing
  the causal-LM class over the sample library yields.
\<close>

definition sample_args :: "string \<rightharpoonup> pyval" where
  "sample_args =
     [''model_name_or_path'' \<mapsto> PStr ''gpt2'', ''tokenizer'' \<mapsto> PStr ''gpt2'',
      ''lr'' \<mapsto> PFloat 0x3F50624DD2F1A9FC, ''lr_decay'' \<mapsto> PFloat 0x3FE0000000000000,
      ''weight_decay'' \<mapsto> PFloat 0x3F847AE147AE147B]"


definition sample_scratch_args :: "string \<rightharpoonup> pyval" where
  "sample_scratch_args =
     [''model_name_or_path'' \<mapsto> PNone, ''model_config_name'' \<mapsto> PStr ''gpt2'',
      ''tokenizer'' \<mapsto> PStr ''gpt2'', ''cache_dir'' \<mapsto> PStr ''/tmp/hub'']"

definition sample_module :: "(string \<rightharpoonup> pyval) \<Rightarrow> (nat, (string \<times> pyval) list) lightning_module" where
  "sample_module margs =
     \<lparr>model_args = margs, cache_dir = PNone, model = Some 50259,
      tokenizer = Some [(''sep_token'', PStr ''<|sep|>''), (''pad_token'', PStr ''<|pad|>'')]\<rparr>"

section \<open>Sequencing laws\<close>

lemma triple_simps [simp]:
  "module_after (a, b, c) = a" "events (a, b, c) = b" "outcome (a, b, c) = c"
  by (simp_all add: module_after_def events_def outcome_def)

lemma emit_simps [simp]:
  "emit ev (a, b, c) = (a, ev # b, c)"
  "module_after (emit ev out) = module_after out"
  "events (emit ev out) = ev # events out"
  "outcome (emit ev out) = outcome out"
  by (simp_all add: emit_def module_after_def events_def outcome_def)

lemma seq_subscript: "seq (subscript k) f s = (case model_args s k of None \<Rightarrow> (s, [], Inl (KeyError k)) | Some v \<Rightarrow> f v s)"
  by (simp add: seq_def subscript_def split: option.splits prod.splits)

lemma seq_raise: "seq (raise e) f s = (s, [], Inl e)"
  by (simp add: seq_def raise_def)

lemma seq_return: "seq (return a) f s = f a s"
  by (simp add: seq_def return_def split: prod.splits)

lemma seq_get_cache_dir: "seq get_cache_dir f s = f (cache_dir s) s"
  by (simp add: seq_def get_cache_dir_def split: prod.splits)

lemma seq_parameters: "seq parameters f s = f (model s) s"
  by (simp add: seq_def parameters_def split: prod.splits)

lemma seq_set_model: "seq (set_model n) f s = f () (s\<lparr>model := Some n\<rparr>)"
  by (simp add: seq_def set_model_def split: prod.splits)

lemma seq_set_tokenizer: "seq (set_tokenizer n) f s = f () (s\<lparr>tokenizer := Some n\<rparr>)"
  by (simp add: seq_def set_tokenizer_def split: prod.splits)

lemma seq_get_model: "seq get_model f s = (case model s of None \<Rightarrow> (s, [], Inl (AttributeError ''model'')) | Some n \<Rightarrow> f n s)"
  by (simp add: seq_def get_model_def split: option.splits prod.splits)

lemma seq_get_tokenizer: "seq get_tokenizer f s = (case tokenizer s of None \<Rightarrow> (s, [], Inl (AttributeError ''tokenizer'')) | Some n \<Rightarrow> f n s)"
  by (simp add: seq_def get_tokenizer_def split: option.splits prod.splits)

lemma seq_attribute: "seq (attribute r) f s = (case r of Inl x \<Rightarrow> (s, [], Inl (Propagated x)) | Inr a \<Rightarrow> f a s)"
  by (simp add: seq_def attribute_def split: sum.splits prod.splits)

lemma seq_extern: "seq (extern ev r) f s =
   (case r of Inl x \<Rightarrow> (s, [ev], Inl (Propagated x))
    | Inr a \<Rightarrow> emit ev (f a s))"
  by (simp add: seq_def extern_def emit_def module_after_def events_def outcome_def split: sum.splits prod.splits)

lemma seq_logger_info: "seq (logger_info msg) f s = emit (Ev_logger_info msg) (f () s)"
  by (simp add: seq_def logger_info_def emit_def module_after_def events_def outcome_def split: sum.splits prod.splits)

lemma seq_assoc: "seq (seq m f) g = seq m (\<lambda>a. seq (f a) g)"
  by (rule ext) (simp add: seq_def split: sum.splits prod.splits)

lemma seq_return_unit: "seq m return = m"
  by (rule ext) (simp add: seq_def return_def split: prod.split sum.split)

lemma seq_unfold:
  "seq m f s =
     (case outcome (m s) of
        Inl e \<Rightarrow> (module_after (m s), events (m s), Inl e)
      | Inr a \<Rightarrow>
          (module_after (f a (module_after (m s))),
           events (m s) @ events (f a (module_after (m s))),
           outcome (f a (module_after (m s)))))"
  by (simp add: seq_def module_after_def events_def outcome_def split: prod.split sum.split)

lemma seq_success:
  assumes "seq m f s = (s', tr, Inr b)"
  shows "\<exists>s1 t1 a t2. m s = (s1, t1, Inr a) \<and> f a s1 = (s', t2, Inr b) \<and> tr = t1 @ t2"
  using assms by (auto simp add: seq_def split: prod.splits sum.splits)

lemmas seq_simps = seq_subscript seq_raise seq_return seq_get_cache_dir seq_parameters seq_set_model
  seq_set_tokenizer seq_get_model seq_get_tokenizer seq_attribute seq_extern seq_logger_info seq_assoc

lemmas prim_defs = return_def raise_def set_model_def logger_info_def attribute_def extern_def subscript_def

section \<open>The shape of construction\<close>

lemma init_model_factored:
  "init_model lib cls = seq (load_network lib (network_class cls)) (\<lambda>_. finish lib cls)"
  by (cases cls)
    (simp_all add: finish_def seq_return_unit load_network_def load_tokenizer_def
      LMModule_init_model_def MLMModule_init_model_def CLMModule_init_model_def
      CGMModule_init_model_def PLMModule_init_model_def)

lemma LMModule_init_eq: "LMModule_init lib cls margs = init_model lib cls (initial_module margs)"
  by (simp add: LMModule_init_def BaseLightningModule_init_def initial_module_def
      configured_cache_dir_def split: option.split)

lemma initial_module_simps [simp]:
  "model_args (initial_module margs) = margs"
  "cache_dir (initial_module margs) = configured_cache_dir margs"
  "model (initial_module margs) = None"
  "tokenizer (initial_module margs) = None"
  by (simp_all add: initial_module_def)

lemma load_network_pretrained:
  assumes "model_args s ''model_name_or_path'' = Some p" and "p \<noteq> PNone"
  shows "load_network lib ac s =
     (case from_pretrained lib ac p (cache_dir s) of
        Inl x \<Rightarrow> (s, [Ev_from_pretrained ac p (cache_dir s)], Inl (Propagated x))
      | Inr net \<Rightarrow> (s\<lparr>model := Some net\<rparr>, [Ev_from_pretrained ac p (cache_dir s)], Inr ()))"
  using assms
  by (simp add: load_network_def seq_simps set_model_def split: sum.split)

lemma load_network_scratch:
  assumes "model_args s ''model_name_or_path'' = Some PNone"
  shows "load_network lib ac s =
     (case model_args s ''model_config_name'' of
        None \<Rightarrow> (s, [], Inl (KeyError ''model_config_name''))
      | Some c \<Rightarrow>
         (case config_from_pretrained lib c (cache_dir s) of
            Inl x \<Rightarrow> (s, [Ev_config_from_pretrained c (cache_dir s)], Inl (Propagated x))
          | Inr cfg \<Rightarrow>
             (case from_config lib ac cfg of
                Inl x \<Rightarrow>
                  (s, [Ev_config_from_pretrained c (cache_dir s), Ev_from_config ac cfg],
                   Inl (Propagated x))
              | Inr net \<Rightarrow>
                  (s\<lparr>model := Some net\<rparr>,
                   [Ev_config_from_pretrained c (cache_dir s), Ev_from_config ac cfg,
                    Ev_logger_info ''Training from scratch''],
                   Inr ()))))"
  using assms
  by (simp add: load_network_def seq_simps logger_info_def split: option.split sum.split)

lemma load_network_missing:
  assumes "model_args s ''model_name_or_path'' = None"
  shows "load_network lib ac s = (s, [], Inl (KeyError ''model_name_or_path''))"
  using assms by (simp add: load_network_def seq_simps)

lemma load_network_cases:
  "load_network lib ac s =
     (case model_args s ''model_name_or_path'' of
        None \<Rightarrow> (s, [], Inl (KeyError ''model_name_or_path''))
      | Some p \<Rightarrow>
          if p \<noteq> PNone then
            (case from_pretrained lib ac p (cache_dir s) of
               Inl x \<Rightarrow> (s, [Ev_from_pretrained ac p (cache_dir s)], Inl (Propagated x))
             | Inr net \<Rightarrow> (s\<lparr>model := Some net\<rparr>, [Ev_from_pretrained ac p (cache_dir s)], Inr ()))
          else
            (case model_args s ''model_config_name'' of
               None \<Rightarrow> (s, [], Inl (KeyError ''model_config_name''))
             | Some c \<Rightarrow>
                (case config_from_pretrained lib c (cache_dir s) of
                   Inl x \<Rightarrow> (s, [Ev_config_from_pretrained c (cache_dir s)], Inl (Propagated x))
                 | Inr cfg \<Rightarrow>
                    (case from_config lib ac cfg of
                       Inl x \<Rightarrow>
                         (s, [Ev_config_from_pretrained c (cache_dir s), Ev_from_config ac cfg],
                          Inl (Propagated x))
                     | Inr net \<Rightarrow>
                         (s\<lparr>model := Some net\<rparr>,
                          [Ev_config_from_pretrained c (cache_dir s), Ev_from_config ac cfg,
                           Ev_logger_info ''Training from scratch''],
                          Inr ())))))"
proof (cases "model_args s ''model_name_or_path''")
  case None
  then show ?thesis by (simp add: load_network_missing)
next
  case (Some p)
  show ?thesis
  proof (cases "p = PNone")
    case True
    with Some show ?thesis by (simp add: load_network_scratch)
  next
    case False
    with Some show ?thesis by (simp add: load_network_pretrained)
  qed
qed

lemma load_network_success:
  assumes "load_network lib ac s = (s1, t1, Inr u)"
  shows "\<exists>net. s1 = s\<lparr>model := Some net\<rparr> \<and> (\<forall>e \<in> set t1. \<not> tokenizer_event e)"
  using assms unfolding load_network_cases
  by (auto split: option.splits sum.splits if_splits)

lemma load_tokenizer_eq:
  assumes "model s = Some net"
  shows "load_tokenizer lib kw s =
     (case model_args s ''tokenizer'' of
        None \<Rightarrow> (s, [], Inl (KeyError ''tokenizer''))
      | Some t \<Rightarrow>
         (case tokenizer_from_pretrained lib t kw of
            Inl x \<Rightarrow> (s, [Ev_tokenizer_from_pretrained t kw], Inl (Propagated x))
          | Inr tok \<Rightarrow>
             (case resize_token_embeddings lib net (tokenizer_len lib tok) of
                Inl x \<Rightarrow>
                  (s\<lparr>tokenizer := Some tok\<rparr>,
                   [Ev_tokenizer_from_pretrained t kw,
                    Ev_resize_token_embeddings net (tokenizer_len lib tok)],
                   Inl (Propagated x))
              | Inr net' \<Rightarrow>
                  (s\<lparr>tokenizer := Some tok, model := Some net'\<rparr>,
                   [Ev_tokenizer_from_pretrained t kw,
                    Ev_resize_token_embeddings net (tokenizer_len lib tok)],
                   Inr ()))))"
  using assms
  by (simp add: load_tokenizer_def seq_simps set_model_def split: option.split sum.split)

lemma load_tokenizer_success:
  assumes "model s = Some net" and "load_tokenizer lib kw s = (s', tr, Inr u)"
  shows "\<exists>t tok net'. model_args s ''tokenizer'' = Some t
           \<and> tokenizer_from_pretrained lib t kw = Inr tok
           \<and> resize_token_embeddings lib net (tokenizer_len lib tok) = Inr net'
           \<and> s' = s\<lparr>tokenizer := Some tok, model := Some net'\<rparr>
           \<and> tr = [Ev_tokenizer_from_pretrained t kw,
                   Ev_resize_token_embeddings net (tokenizer_len lib tok)]"
  using assms(2) unfolding load_tokenizer_eq [OF assms(1)]
  by (auto split: option.splits sum.splits)





lemma construct_with_tokenizer_success:
  assumes "cls \<noteq> LMModule" and "LMModule_init lib cls margs = (M, tr, Inr ())"
  shows "\<exists>t1 net t tok net'.
           (\<forall>e \<in> set t1. \<not> tokenizer_event e)
         \<and> margs ''tokenizer'' = Some t
         \<and> tokenizer_from_pretrained lib t (tokenizer_kwargs cls) = Inr tok
         \<and> resize_token_embeddings lib net (tokenizer_len lib tok) = Inr net'
         \<and> tokenizer M = Some tok \<and> model M = Some net'
         \<and> tr = t1 @ [Ev_tokenizer_from_pretrained t (tokenizer_kwargs cls),
                       Ev_resize_token_embeddings net (tokenizer_len lib tok)]"
proof -
  from assms(2) obtain s1 t1 a t2 where
    1: "load_network lib (network_class cls) (initial_module margs) = (s1, t1, Inr a)" and
    2: "finish lib cls s1 = (M, t2, Inr ())" and
    3: "tr = t1 @ t2"
    unfolding LMModule_init_eq init_model_factored by (blast dest: seq_success)
  from load_network_success [OF 1] obtain net where
    4: "s1 = (initial_module margs)\<lparr>model := Some net\<rparr>" and
    5: "\<forall>e \<in> set t1. \<not> tokenizer_event e"
    by blast
  have 6: "model s1 = Some net" using 4 by simp
  have 7: "load_tokenizer lib (tokenizer_kwargs cls) s1 = (M, t2, Inr ())"
    using 2 assms(1) by (simp add: finish_def)
  from load_tokenizer_success [OF 6 7] 3 4 5 show ?thesis
    by auto
qed

lemma load_network_frame: "model_args (module_after (load_network lib ac s)) = model_args s"
  unfolding load_network_cases by (simp split: option.split sum.split)

lemma load_tokenizer_frame: "model_args (module_after (load_tokenizer lib kw s)) = model_args s"
  by (simp add: load_tokenizer_def seq_simps set_model_def split: option.split sum.split)

lemma finish_frame: "model_args (module_after (finish lib cls s)) = model_args s"
  by (simp add: finish_def return_def load_tokenizer_frame)

lemma init_model_frame: "model_args (module_after (init_model lib cls s)) = model_args s"
  by (simp add: init_model_factored seq_unfold finish_frame load_network_frame split: sum.split)

lemma forward_frame: "model_args (module_after (forward lib x M)) = model_args M"
  by (simp add: forward_def seq_simps prim_defs split: option.split sum.split prod.split)

lemma training_step_frame: "model_args (module_after (training_step lib b i M)) = model_args M"
  by (simp add: training_step_def seq_simps prim_defs split: option.split sum.split prod.split)

lemma validation_step_frame: "model_args (module_after (validation_step lib b i M)) = model_args M"
  by (simp add: validation_step_def seq_simps prim_defs split: option.split sum.split prod.split)

lemma configure_optimizers_frame:
  "model_args (module_after (configure_optimizers lib M)) = model_args M"
  by (simp add: configure_optimizers_def seq_simps prim_defs split: option.split sum.split)

lemmas sample_defs = sample_library_def sample_args_def sample_scratch_args_def sample_module_def
  configured_cache_dir_def initial_module_def finish_def

section \<open>Construction\<close>





text \<open>
  Claim C5. Construction of the causal-LM module gives the tokenizer loader the
  separator token \<^verbatim>\<open><|sep|>\<close> and the padding token \<^verbatim>\<open><|pad|>\<close> as keyword arguments,
  whatever tokenizer the identifier names. When construction completes, the load with
  these two tokens is the call just before the last one, the last call resizes the
  embeddings to the length of the tokenizer that load returned, and, the loader giving a
  tokenizer the special tokens it is asked for, the module's tokenizer has both.
\<close>

theorem clm_special_tokens:
  assumes "LMModule_init lib CLMModule margs = (M, tr, Inr ())"
    and "\<forall>name tok. tokenizer_from_pretrained lib name
            [(''sep_token'', PStr ''<|sep|>''), (''pad_token'', PStr ''<|pad|>''),
             (''use_fast'', PBool False)] = Inr tok
          \<longrightarrow> special_token lib tok ''sep_token'' = Some ''<|sep|>''
            \<and> special_token lib tok ''pad_token'' = Some ''<|pad|>''"
  shows "\<exists>tok name net pre.
           tokenizer M = Some tok
         \<and> special_token lib tok ''sep_token'' = Some ''<|sep|>''
         \<and> special_token lib tok ''pad_token'' = Some ''<|pad|>''
         \<and> tokenizer_from_pretrained lib name
              [(''sep_token'', PStr ''<|sep|>''), (''pad_token'', PStr ''<|pad|>''),
               (''use_fast'', PBool False)] = Inr tok
         \<and> tr = pre @
             [Ev_tokenizer_from_pretrained name
                [(''sep_token'', PStr ''<|sep|>''), (''pad_token'', PStr ''<|pad|>''),
                 (''use_fast'', PBool False)],
              Ev_resize_token_embeddings net (tokenizer_len lib tok)]"
proof -
  have "CLMModule \<noteq> LMModule" by simp
  from construct_with_tokenizer_success [OF this assms(1)] obtain t1 net t tok where
    b: "tokenizer_from_pretrained lib t (tokenizer_kwargs CLMModule) = Inr tok" and
    c: "tokenizer M = Some tok" and
    d: "tr = t1 @ [Ev_tokenizer_from_pretrained t (tokenizer_kwargs CLMModule),
                   Ev_resize_token_embeddings net (tokenizer_len lib tok)]"
    by blast
  have "special_token lib tok ''sep_token'' = Some ''<|sep|>''
      \<and> special_token lib tok ''pad_token'' = Some ''<|pad|>''"
    using assms(2) [rule_format, of t tok] b by simp
  then show ?thesis using b c d by auto
qed

theorem clm_special_tokens_witness:
  "outcome (LMModule_init sample_library CLMModule sample_args) = Inr ()
   \<and> special_token sample_library [] ''sep_token'' = None
   \<and> special_token sample_library [] ''pad_token'' = None
   \<and> (\<exists>tok. tokenizer (module_after (LMModule_init sample_library CLMModule sample_args)) = Some tok
         \<and> special_token sample_library tok ''sep_token'' = Some ''<|sep|>''
         \<and> special_token sample_library tok ''pad_token'' = Some ''<|pad|>'')
   \<and> events (LMModule_init sample_library CLMModule sample_args) =
       [Ev_from_pretrained AutoModelForCausalLM (PStr ''gpt2'') PNone,
        Ev_tokenizer_from_pretrained (PStr ''gpt2'')
          [(''sep_token'', PStr ''<|sep|>''), (''pad_token'', PStr ''<|pad|>''),
           (''use_fast'', PBool False)],
        Ev_resize_token_embeddings 50257 50259]"
proof -
  have ev: "events (LMModule_init sample_library CLMModule sample_args) =
       [Ev_from_pretrained AutoModelForCausalLM (PStr ''gpt2'') PNone,
        Ev_tokenizer_from_pretrained (PStr ''gpt2'')
          [(''sep_token'', PStr ''<|sep|>''), (''pad_token'', PStr ''<|pad|>''),
           (''use_fast'', PBool False)],
        Ev_resize_token_embeddings 50257 50259]"
    by (simp add: LMModule_init_eq init_model_factored load_network_cases load_tokenizer_eq
        seq_unfold sample_defs return_def)
  have oc: "outcome (LMModule_init sample_library CLMModule sample_args) = Inr ()"
    by (simp add: LMModule_init_eq init_model_factored load_network_cases load_tokenizer_eq
        seq_unfold sample_defs return_def)
  have b: "LMModule_init sample_library CLMModule sample_args =
      (module_after (LMModule_init sample_library CLMModule sample_args),
       events (LMModule_init sample_library CLMModule sample_args), Inr ())"
    by (subst oc [symmetric]) (simp add: module_after_def events_def outcome_def)
  have c: "\<forall>name tok. tokenizer_from_pretrained sample_library name
            [(''sep_token'', PStr ''<|sep|>''), (''pad_token'', PStr ''<|pad|>''),
             (''use_fast'', PBool False)] = Inr tok
          \<longrightarrow> special_token sample_library tok ''sep_token'' = Some ''<|sep|>''
            \<and> special_token sample_library tok ''pad_token'' = Some ''<|pad|>''"
    by (auto simp add: sample_library_def split: pyval.splits)
  have d: "special_token sample_library [] ''sep_token'' = None
      \<and> special_token sample_library [] ''pad_token'' = None"
    by (simp add: sample_library_def)
  from clm_special_tokens [OF b c] ev oc d show ?thesis
    by blast
qed

text \<open>
  Claim C8. For each of the five module classes, when the entry \<^verbatim>\<open>model_name_or_path\<close>
  is \<^verbatim>\<open>None\<close> and \<^verbatim>\<open>model_args\<close> has no entry \<^verbatim>\<open>model_config_name\<close>, or has one that the
  configuration loader does not resolve, construction ends with an error and the module
  holds no network.
\<close>

theorem construction_fails_without_config:
  assumes "margs ''model_name_or_path'' = Some PNone"
  shows "(margs ''model_config_name'' = None \<longrightarrow>
            outcome (LMModule_init lib cls margs) = Inl (KeyError ''model_config_name'')
          \<and> model (module_after (LMModule_init lib cls margs)) = None)
       \<and> (\<forall>c x. margs ''model_config_name'' = Some c
              \<and> config_from_pretrained lib c (configured_cache_dir margs) = Inl x \<longrightarrow>
            outcome (LMModule_init lib cls margs) = Inl (Propagated x)
          \<and> model (module_after (LMModule_init lib cls margs)) = None)"
  using assms
  by (simp add: LMModule_init_eq init_model_factored seq_unfold load_network_scratch)

theorem construction_fails_without_config_witness:
  "[''model_name_or_path'' \<mapsto> PNone] ''model_name_or_path'' = Some PNone
   \<and> [''model_name_or_path'' \<mapsto> PNone] ''model_config_name'' = None
   \<and> outcome (LMModule_init sample_library CGMModule [''model_name_or_path'' \<mapsto> PNone]) =
       Inl (KeyError ''model_config_name'')
   \<and> config_from_pretrained sample_library PNone PNone = Inl ''OSError''
   \<and> outcome (LMModule_init sample_library CGMModule
        [''model_name_or_path'' \<mapsto> PNone, ''model_config_name'' \<mapsto> PNone]) =
       Inl (Propagated ''OSError'')"
proof -
  have a: "[''model_name_or_path'' \<mapsto> PNone] ''model_name_or_path'' = Some PNone"
    by simp
  have b: "[''model_name_or_path'' \<mapsto> PNone, ''model_config_name'' \<mapsto> PNone]
      ''model_name_or_path'' = Some PNone"
    by simp
  show ?thesis
    using construction_fails_without_config [where margs = "[''model_name_or_path'' \<mapsto> PNone]"
          and lib = sample_library and cls = CGMModule, OF a]
      construction_fails_without_config [where margs = "[''model_name_or_path'' \<mapsto> PNone,
          ''model_config_name'' \<mapsto> PNone]" and lib = sample_library and cls = CGMModule, OF b]
    by (simp add: sample_library_def configured_cache_dir_def)
qed

section \<open>Optimizer configuration\<close>






text \<open>
  Claim C4. For every module whose entries \<^verbatim>\<open>lr\<close> and \<^verbatim>\<open>lr_decay\<close> are floats: with the
  entry \<^verbatim>\<open>weight_decay\<close> present and the two library constructors returning,
  \<^verbatim>\<open>configure_optimizers\<close> makes exactly two library calls, AdamW over the parameters
  of the module's network with learning rate \<^verbatim>\<open>lr\<close> and weight decay \<^verbatim>\<open>weight_decay\<close>, then
  StepLR on that optimizer with step size 1 and factor \<^verbatim>\<open>lr_decay\<close>, and returns the
  mapping of \<^verbatim>\<open>optimizer\<close> to the optimizer, \<^verbatim>\<open>lr_scheduler\<close> to the scheduler and
  \<^verbatim>\<open>monitor\<close> to the string \<^verbatim>\<open>val_loss\<close>.
\<close>

theorem configure_optimizers_result:
  assumes "model_args M ''lr'' = Some (PFloat a)"
    and "model_args M ''lr_decay'' = Some (PFloat g)"
    and "model_args M ''weight_decay'' = Some w"
    and "AdamW lib (model M) (PFloat a) w = Inr opt"
    and "StepLR lib opt 1 (PFloat g) = Inr sch"
  shows "configure_optimizers lib M =
     (M, [Ev_AdamW (model M) (PFloat a) w, Ev_StepLR opt 1 (PFloat g)],
      Inr [''optimizer'' \<mapsto> Optimizer opt, ''lr_scheduler'' \<mapsto> Scheduler sch,
           ''monitor'' \<mapsto> Metric ''val_loss''])"
  using assms by (simp add: configure_optimizers_def seq_simps prim_defs)

theorem configure_optimizers_result_witness:
  "model_args (sample_module sample_args) ''lr'' = Some (PFloat 0x3F50624DD2F1A9FC)
   \<and> model_args (sample_module sample_args) ''lr_decay'' = Some (PFloat 0x3FE0000000000000)
   \<and> model_args (sample_module sample_args) ''weight_decay'' = Some (PFloat 0x3F847AE147AE147B)
   \<and> AdamW sample_library (model (sample_module sample_args)) (PFloat 0x3F50624DD2F1A9FC)
        (PFloat 0x3F847AE147AE147B) =
      Inr (PFloat 0x3F50624DD2F1A9FC, PFloat 0x3F847AE147AE147B)
   \<and> StepLR sample_library (PFloat 0x3F50624DD2F1A9FC, PFloat 0x3F847AE147AE147B) 1
        (PFloat 0x3FE0000000000000) =
      Inr (1, PFloat 0x3FE0000000000000)
   \<and> configure_optimizers sample_library (sample_module sample_args) =
     (sample_module sample_args,
      [Ev_AdamW (Some 50259) (PFloat 0x3F50624DD2F1A9FC) (PFloat 0x3F847AE147AE147B),
       Ev_StepLR (PFloat 0x3F50624DD2F1A9FC, PFloat 0x3F847AE147AE147B) 1
         (PFloat 0x3FE0000000000000)],
      Inr [''optimizer'' \<mapsto> Optimizer (PFloat 0x3F50624DD2F1A9FC, PFloat 0x3F847AE147AE147B),
           ''lr_scheduler'' \<mapsto> Scheduler (1, PFloat 0x3FE0000000000000),
           ''monitor'' \<mapsto> Metric ''val_loss''])"
proof -
  have 1: "model_args (sample_module sample_args) ''lr'' = Some (PFloat 0x3F50624DD2F1A9FC)"
    by (simp add: sample_module_def sample_args_def)
  have 2: "model_args (sample_module sample_args) ''lr_decay'' = Some (PFloat 0x3FE0000000000000)"
    by (simp add: sample_module_def sample_args_def)
  have 3: "model_args (sample_module sample_args) ''weight_decay'' =
      Some (PFloat 0x3F847AE147AE147B)"
    by (simp add: sample_module_def sample_args_def)
  have 4: "AdamW sample_library (model (sample_module sample_args)) (PFloat 0x3F50624DD2F1A9FC)
        (PFloat 0x3F847AE147AE147B) =
      Inr (PFloat 0x3F50624DD2F1A9FC, PFloat 0x3F847AE147AE147B)"
    by (simp add: sample_library_def)
  have 5: "StepLR sample_library (PFloat 0x3F50624DD2F1A9FC, PFloat 0x3F847AE147AE147B) 1
        (PFloat 0x3FE0000000000000) =
      Inr (1, PFloat 0x3FE0000000000000)"
    by (simp add: sample_library_def)
  have 6: "model (sample_module sample_args) = Some 50259"
    by (simp add: sample_module_def)
  from configure_optimizers_result [OF 1 2 3 4 5] 1 2 3 4 5 6 show ?thesis
    by simp
qed

text \<open>
  Claim C10. For every module whose entries \<^verbatim>\<open>lr\<close> and \<^verbatim>\<open>lr_decay\<close> are floats,
  \<^verbatim>\<open>configure_optimizers\<close> raises no ValueError whatever the entry \<^verbatim>\<open>weight_decay\<close> is,
  and its first library call is the AdamW constructor with that entry, unchanged, as the
  weight decay.
\<close>

theorem weight_decay_unchecked:
  assumes "model_args M ''lr'' = Some (PFloat a)"
    and "model_args M ''lr_decay'' = Some (PFloat g)"
  shows "(\<forall>msg. outcome (configure_optimizers lib M) \<noteq> Inl (ValueError msg))
     \<and> (\<forall>w. model_args M ''weight_decay'' = Some w \<longrightarrow>
           take 1 (events (configure_optimizers lib M)) = [Ev_AdamW (model M) (PFloat a) w])"
  using assms
  by (simp add: configure_optimizers_def seq_simps prim_defs split: option.split sum.split)

theorem weight_decay_unchecked_witness:
  "model_args (sample_module (sample_args(''weight_decay'' \<mapsto> PStr ''heavy''))) ''lr'' =
      Some (PFloat 0x3F50624DD2F1A9FC)
   \<and> model_args (sample_module (sample_args(''weight_decay'' \<mapsto> PStr ''heavy''))) ''lr_decay'' =
      Some (PFloat 0x3FE0000000000000)
   \<and> outcome (configure_optimizers sample_library
        (sample_module (sample_args(''weight_decay'' \<mapsto> PStr ''heavy'')))) \<noteq>
      Inl (ValueError ''Learning rate should be float'')
   \<and> take 1 (events (configure_optimizers sample_library
        (sample_module (sample_args(''weight_decay'' \<mapsto> PStr ''heavy''))))) =
      [Ev_AdamW (Some 50259) (PFloat 0x3F50624DD2F1A9FC) (PStr ''heavy'')]"
proof -
  have 1: "model_args (sample_module (sample_args(''weight_decay'' \<mapsto> PStr ''heavy''))) ''lr'' =
      Some (PFloat 0x3F50624DD2F1A9FC)"
    by (simp add: sample_module_def sample_args_def)
  have 2: "model_args (sample_module (sample_args(''weight_decay'' \<mapsto> PStr ''heavy'')))
      ''lr_decay'' = Some (PFloat 0x3FE0000000000000)"
    by (simp add: sample_module_def sample_args_def)
  have 3: "model_args (sample_module (sample_args(''weight_decay'' \<mapsto> PStr ''heavy'')))
      ''weight_decay'' = Some (PStr ''heavy'')"
    by (simp add: sample_module_def sample_args_def)
  have 4: "model (sample_module (sample_args(''weight_decay'' \<mapsto> PStr ''heavy''))) = Some 50259"
    by (simp add: sample_module_def)
  from weight_decay_unchecked [OF 1 2, where lib = sample_library] 1 2 3 4 show ?thesis
    by simp
qed

section \<open>Forward pass and steps\<close>

text \<open>
  Claim C7. For every input tensor, when the module holds a network, the call of the
  network on that one positional argument returns and the output has logits, \<^verbatim>\<open>forward\<close>
  makes that one library call and returns those logits as they are.
\<close>

theorem forward_logits:
  assumes "model M = Some net"
    and "call_network lib net [x] Map.empty = Inr (out, net')"
    and "logits out = Inr t"
  shows "forward lib x M = (M\<lparr>model := Some net'\<rparr>, [Ev_call_network net [x] Map.empty], Inr t)"
  using assms by (simp add: forward_def seq_simps prim_defs)

theorem forward_logits_witness:
  "model (sample_module sample_args) = Some 50259
   \<and> call_network sample_library 50259 [42] Map.empty =
       Inr (\<lparr>logits = Inr 7, loss = Inr 3\<rparr>, 50259)
   \<and> logits \<lparr>logits = Inr 7, loss = Inr (3 :: int)\<rparr> = (Inr 7 :: exn + int)
   \<and> forward sample_library 42 (sample_module sample_args) =
       ((sample_module sample_args)\<lparr>model := Some 50259\<rparr>,
        [Ev_call_network 50259 [42] Map.empty], Inr 7)"
proof -
  have 1: "model (sample_module sample_args) = Some 50259"
    by (simp add: sample_module_def)
  have 2: "call_network sample_library 50259 [42] Map.empty =
       Inr (\<lparr>logits = Inr 7, loss = Inr 3\<rparr>, 50259)"
    by (simp add: sample_library_def)
  have 3: "logits \<lparr>logits = Inr 7, loss = Inr (3 :: int)\<rparr> = (Inr 7 :: exn + int)"
    by simp
  from forward_logits [OF 1 2 3] 1 2 3 show ?thesis
    by simp
qed

text \<open>
  Claim C6. For every batch, when the module holds a network, the call of the network on
  the batch as keyword arguments returns, the output has a loss and logging returns:
  \<^verbatim>\<open>training_step\<close> makes that call, logs the loss under \<^verbatim>\<open>train_loss\<close> and returns it;
  \<^verbatim>\<open>validation_step\<close> does the same under \<^verbatim>\<open>val_loss\<close>.
\<close>

theorem step_logs_loss:
  assumes "model M = Some net"
    and "call_network lib net [] batch = Inr (out, net')"
    and "loss out = Inr l"
  shows "(log_metric lib ''train_loss'' l = Inr () \<longrightarrow>
           training_step lib batch batch_idx M =
             (M\<lparr>model := Some net'\<rparr>,
              [Ev_call_network net [] batch, Ev_log ''train_loss'' l], Inr l))
       \<and> (log_metric lib ''val_loss'' l = Inr () \<longrightarrow>
           validation_step lib batch batch_idx M =
             (M\<lparr>model := Some net'\<rparr>,
              [Ev_call_network net [] batch, Ev_log ''val_loss'' l], Inr l))"
  using assms by (simp add: training_step_def validation_step_def seq_simps prim_defs)

theorem step_logs_loss_witness:
  "model (sample_module sample_args) = Some 50259
   \<and> call_network sample_library 50259 [] [''input_ids'' \<mapsto> 42] =
       Inr (\<lparr>logits = Inr 7, loss = Inr 3\<rparr>, 50259)
   \<and> log_metric sample_library ''train_loss'' 3 = Inr ()
   \<and> log_metric sample_library ''val_loss'' 3 = Inr ()
   \<and> training_step sample_library [''input_ids'' \<mapsto> 42] 0 (sample_module sample_args) =
       ((sample_module sample_args)\<lparr>model := Some 50259\<rparr>,
        [Ev_call_network 50259 [] [''input_ids'' \<mapsto> 42], Ev_log ''train_loss'' 3], Inr 3)
   \<and> validation_step sample_library [''input_ids'' \<mapsto> 42] 0 (sample_module sample_args) =
       ((sample_module sample_args)\<lparr>model := Some 50259\<rparr>,
        [Ev_call_network 50259 [] [''input_ids'' \<mapsto> 42], Ev_log ''val_loss'' 3], Inr 3)"
proof -
  have 1: "model (sample_module sample_args) = Some 50259"
    by (simp add: sample_module_def)
  have 2: "call_network sample_library 50259 [] [''input_ids'' \<mapsto> 42] =
       Inr (\<lparr>logits = Inr 7, loss = Inr 3\<rparr>, 50259)"
    by (simp add: sample_library_def)
  have 3: "loss \<lparr>logits = Inr 7, loss = Inr (3 :: int)\<rparr> = (Inr 3 :: exn + int)"
    by simp
  have 4: "log_metric sample_library ''train_loss'' 3 = Inr ()"
    "log_metric sample_library ''val_loss'' 3 = Inr ()"
    by (simp_all add: sample_library_def)
  from step_logs_loss [OF 1 2 3, where batch_idx = 0] 1 2 4 show ?thesis
    by simp
qed

section \<open>The configuration is never written\<close>

text \<open>
  Claim C9. Construction stores the \<^verbatim>\<open>model_args\<close> it is given, and \<^verbatim>\<open>forward\<close>,
  \<^verbatim>\<open>training_step\<close>, \<^verbatim>\<open>validation_step\<close> and \<^verbatim>\<open>configure_optimizers\<close> each leave the
  module's \<^verbatim>\<open>model_args\<close> as they found it, whether they return or raise.
\<close>

theorem model_args_unchanged:
  "model_args (module_after (LMModule_init lib cls margs)) = margs
   \<and> model_args (module_after (forward lib x M)) = model_args M
   \<and> model_args (module_after (training_step lib batch batch_idx M)) = model_args M
   \<and> model_args (module_after (validation_step lib batch batch_idx M)) = model_args M
   \<and> model_args (module_after (configure_optimizers lib M)) = model_args M"
  by (simp add: LMModule_init_eq init_model_frame forward_frame training_step_frame
      validation_step_frame configure_optimizers_frame)

theorem model_args_unchanged_witness:
  "model_args (module_after (LMModule_init sample_library CLMModule sample_args)) = sample_args
   \<and> model_args (module_after (forward sample_library 42 (sample_module sample_args))) = sample_args
   \<and> model_args (module_after
        (training_step sample_library [''input_ids'' \<mapsto> 42] 0 (sample_module sample_args))) =
      sample_args
   \<and> model_args (module_after
        (validation_step sample_library [''input_ids'' \<mapsto> 42] 0 (sample_module sample_args))) =
      sample_args
   \<and> model_args (module_after (configure_optimizers sample_library (sample_module sample_args))) =
      sample_args"
  using model_args_unchanged [where lib = sample_library and cls = CLMModule
      and margs = sample_args and x = 42 and M = "sample_module sample_args"
      and batch = "[''input_ids'' \<mapsto> 42]" and batch_idx = 0]
  by (simp add: sample_module_def)

end
